theory Spec2Isabelle
  imports Main
begin

section \<open>Python values and library functions\<close>

text \<open>
  Strings are \<^typ>\<open>string\<close> (ASCII text). A value that may be Python's \<open>None\<close> is an
  \<^typ>\<open>'a option\<close>. A dictionary from field names to collected values is an association
  list in insertion order with unique keys, as a Python \<open>dict\<close> is. The exceptions the
  call-handling code can let escape are the values of \<open>error\<close>.
\<close>

type_synonym dict = "(string \<times> string) list"

datatype error = TypeError | DbError | MultipleResultsFound

text \<open>Formatting a value inside an f-string: \<open>None\<close> prints as the text \<open>None\<close>.\<close>

definition py_str :: "string option \<Rightarrow> string" where
  "py_str v = (case v of None \<Rightarrow> ''None'' | Some s \<Rightarrow> s)"

text \<open>\<open>sep.join(xs)\<close>.\<close>

fun join :: "string \<Rightarrow> string list \<Rightarrow> string" where
  "join sep [] = []"
| "join sep [x] = x"
| "join sep (x # y # ys) = x @ sep @ join sep (y # ys)"

text \<open>\<open>d.update(other)\<close>: every pair of \<open>other\<close>, in order, is stored into \<open>d\<close>; a key
  already present keeps its position and gets the new value, a new key is appended.\<close>

fun dict_set :: "dict \<Rightarrow> string \<Rightarrow> string \<Rightarrow> dict" where
  "dict_set [] k v = [(k, v)]"
| "dict_set ((k', v') # d) k v = (if k' = k then (k, v) # d else (k', v') # dict_set d k v)"

fun dict_update :: "dict \<Rightarrow> dict \<Rightarrow> dict" where
  "dict_update d [] = d"
| "dict_update d ((k, v) # other) = dict_update (dict_set d k v) other"

text \<open>\<open>d.get(k)\<close>.\<close>

definition dict_get :: "dict \<Rightarrow> string \<Rightarrow> string option" where
  "dict_get d k = map_of d k"

text \<open>\<open>str.lower\<close>, \<open>str.upper\<close> and \<open>str.capitalize\<close> on ASCII text.\<close>

definition lower_char :: "char \<Rightarrow> char" where
  "lower_char c =
     (case map_of (zip ''ABCDEFGHIJKLMNOPQRSTUVWXYZ'' ''abcdefghijklmnopqrstuvwxyz'') c of
        Some d \<Rightarrow> d
      | None \<Rightarrow> c)"

definition upper_char :: "char \<Rightarrow> char" where
  "upper_char c =
     (case map_of (zip ''abcdefghijklmnopqrstuvwxyz'' ''ABCDEFGHIJKLMNOPQRSTUVWXYZ'') c of
        Some d \<Rightarrow> d
      | None \<Rightarrow> c)"

definition lower :: "string \<Rightarrow> string" where
  "lower s = map lower_char s"

definition capitalize :: "string \<Rightarrow> string" where
  "capitalize s = (case s of [] \<Rightarrow> [] | c # cs \<Rightarrow> upper_char c # map lower_char cs)"

text \<open>\<open>str.strip\<close>: ASCII white space is removed from both ends.\<close>

definition is_space :: "char \<Rightarrow> bool" where
  "is_space c = (let n = (of_char c :: nat) in (9 \<le> n \<and> n \<le> 13) \<or> (28 \<le> n \<and> n \<le> 32))"

definition strip :: "string \<Rightarrow> string" where
  "strip s = rev (dropWhile is_space (rev (dropWhile is_space s)))"

text \<open>\<open>line.startswith(p)\<close>.\<close>

fun startswith :: "string \<Rightarrow> string \<Rightarrow> bool" where
  "startswith s [] = True"
| "startswith [] (p # ps) = False"
| "startswith (c # cs) (p # ps) = (c = p \<and> startswith cs ps)"

text \<open>\<open>s.replace(old, new)\<close> for a non-empty \<open>old\<close>: the occurrences are replaced from the
  left, without overlap.\<close>

function replace :: "string \<Rightarrow> string \<Rightarrow> string \<Rightarrow> string" where
  "replace s old new =
     (case s of
        [] \<Rightarrow> []
      | c # cs \<Rightarrow>
          if old \<noteq> [] \<and> startswith s old then new @ replace (drop (length old) s) old new
          else c # replace cs old new)"
  by pat_completeness auto
termination
  by (relation "measure (\<lambda>(s, old, new). length s)") auto

section \<open>Voice markup: services/telephony.py\<close>

text \<open>
  A TwiML document is the list of its verbs. \<open>Gather\<close> carries its action URL and the
  verbs nested in it; its other attributes are the same constants at every use in the
  source (speech input, POST, automatic speech timeout, en-US). \<open>Say\<close> carries the message
  and the voice.
\<close>

datatype verb =
    Say "string option" string
  | Hangup
  | Gather string "verb list"
  | Redirect string
  | Dial string

type_synonym twiml = "verb list"

definition create_greeting_response :: "string option \<Rightarrow> string \<Rightarrow> twiml" where
  "create_greeting_response greeting_message voice =
     [Gather ''/api/webhooks/twilio/handle-input'' [Say greeting_message voice],
      Say (Some ''I didn't catch that. How may I help you?'') voice,
      Redirect ''/api/webhooks/twilio/voice'']"

definition create_response :: "string option \<Rightarrow> string \<Rightarrow> bool \<Rightarrow> bool \<Rightarrow> twiml" where
  "create_response message voice gather_input end_call =
     (if end_call then [Say message voice, Hangup]
      else if gather_input then
        [Gather ''/api/webhooks/twilio/handle-input'' [Say message voice],
         Say (Some ''Are you still there?'') voice,
         Redirect ''/api/webhooks/twilio/voice'']
      else [Say message voice])"

definition transfer_call :: "string \<Rightarrow> string option \<Rightarrow> string \<Rightarrow> twiml" where
  "transfer_call phone_number message voice =
     (if message \<noteq> None \<and> message \<noteq> Some [] then [Say message voice] else []) @ [Dial phone_number]"

section \<open>The conversation model client: services/ai_handler.py\<close>

text \<open>
  The business context is the dictionary that the call-start webhook passes to the
  handler: each of its ten keys is always present, with a value that may be \<open>None\<close>
  (a NULL column), so the defaults of \<open>business.get\<close> never apply to them. The key
  \<open>custom_prompts\<close> is absent (\<open>None\<close> here) until \<open>add_prompts_to_context\<close> sets it.
  The services are a JSON list of strings and the hours a JSON object from day names to
  objects with the keys \<open>closed\<close>, \<open>open\<close> and \<open>close\<close> (an absent key is \<open>None\<close>), as
  the schemas of the repository declare them.
\<close>

record day_hours =
  hrs_closed :: bool
  hrs_open :: "string option"
  hrs_close :: "string option"

record business_context =
  ctx_name :: string
  ctx_business_type :: "string option"
  ctx_phone_number :: "string option"
  ctx_address_line1 :: "string option"
  ctx_city :: "string option"
  ctx_state :: "string option"
  ctx_zip_code :: "string option"
  ctx_business_hours :: "(string \<times> day_hours) list option"
  ctx_services :: "string list option"
  ctx_ai_personality :: "string option"
  custom_prompts :: "string option"

record chat_message =
  role :: string
  content :: "string option"

record handler =
  business_context :: business_context
  client :: bool
  conversation_history :: "chat_message list"

text \<open>
  What lies outside the repository is a parameter of the model, one record per webhook
  request:
  \<^item> \<open>openai_api_key\<close>: the setting read when a handler is constructed;
  \<^item> \<open>chat_completion\<close>: the conversational request to the language model, which either
  raises (with the text of the exception) or yields a message with an optional content
  and an optional function call (name and argument text);
  \<^item> \<open>summary_completion\<close> and \<open>sentiment_completion\<close>: the content of the reply to the
  summary and sentiment requests, \<open>None\<close> when the request or reading the content raises;
  \<^item> \<open>json_loads\<close>: \<open>json.loads\<close> on a stored list field, \<open>None\<close> when it raises,
  \<open>Strings xs\<close> when the decoded value iterates over the strings \<open>xs\<close> (a list of
  strings; a string, over its characters; an object, over its keys), \<open>NotStrings\<close> for
  every other value, on which \<open>str.join\<close> raises a TypeError;
  \<^item> \<open>json_loads_args\<close>: \<open>json.loads\<close> on the argument text of a function call, the
  text of the exception when it raises, otherwise the decoded object (the function
  schemas sent with the request declare an object with string properties);
  \<^item> \<open>dict_repr\<close>: how Python prints a dictionary inside an f-string;
  \<^item> \<open>commit_ok\<close>: whether the durable store accepts the commit of this request.
\<close>

datatype llm_outcome = Raises string | Message "string option" "(string \<times> string) option"

datatype decoded = Strings "string list" | NotStrings

record env =
  openai_api_key :: "string option"
  chat_completion :: "chat_message list \<Rightarrow> llm_outcome"
  summary_completion :: "string \<Rightarrow> string option"
  sentiment_completion :: "string \<Rightarrow> string option"
  json_loads :: "string \<Rightarrow> decoded option"
  json_loads_args :: "string \<Rightarrow> string + dict"
  dict_repr :: "dict \<Rightarrow> string"
  commit_ok :: bool

definition init_handler :: "env \<Rightarrow> business_context \<Rightarrow> handler" where
  "init_handler e ctx =
     \<lparr>business_context = ctx,
      client = (case openai_api_key e of None \<Rightarrow> False | Some k \<Rightarrow> k \<noteq> []),
      conversation_history = []\<rparr>"

definition days :: "string list" where
  "days = [''monday'', ''tuesday'', ''wednesday'', ''thursday'', ''friday'', ''saturday'', ''sunday'']"

definition format_day :: "string \<Rightarrow> day_hours \<Rightarrow> string" where
  "format_day day day_hours =
     (if hrs_closed day_hours then capitalize day @ '': Closed''
      else capitalize day @ '': ''
        @ (case hrs_open day_hours of None \<Rightarrow> ''9:00'' | Some t \<Rightarrow> t) @ '' - ''
        @ (case hrs_close day_hours of None \<Rightarrow> ''17:00'' | Some t \<Rightarrow> t))"

definition format_hours :: "(string \<times> day_hours) list option \<Rightarrow> string" where
  "format_hours hours =
     (case hours of
        None \<Rightarrow> ''Monday-Friday: 9:00 AM - 5:00 PM''
      | Some hs \<Rightarrow>
          if hs = [] then ''Monday-Friday: 9:00 AM - 5:00 PM''
          else
            (let formatted =
               concat (map (\<lambda>day. case map_of hs day of
                                     None \<Rightarrow> []
                                   | Some day_hours \<Rightarrow> [format_day day day_hours]) days)
             in if formatted \<noteq> [] then join ''\<newline>'' formatted
                else ''Monday-Friday: 9:00 AM - 5:00 PM''))"

text \<open>\<open>build_system_prompt\<close>: the only expression of the f-string that can raise is the
  join of the services, a TypeError when the column is NULL.\<close>

definition build_system_prompt :: "business_context \<Rightarrow> error + string" where
  "build_system_prompt business =
     (case ctx_services business of
        None \<Rightarrow> Inl TypeError
      | Some services \<Rightarrow> Inr (
          ''You are an AI receptionist for '' @ ctx_name business @ ''.\<newline>''
        @ ''Your role is to professionally and warmly assist callers with their needs.\<newline>''
        @ ''\<newline>''
        @ ''BUSINESS INFORMATION:\<newline>''
        @ ''- Name: '' @ ctx_name business @ ''\<newline>''
        @ ''- Type: '' @ py_str (ctx_business_type business) @ ''\<newline>''
        @ ''- Phone: '' @ py_str (ctx_phone_number business) @ ''\<newline>''
        @ ''- Address: '' @ py_str (ctx_address_line1 business) @ '', ''
            @ py_str (ctx_city business) @ '', '' @ py_str (ctx_state business) @ '' ''
            @ py_str (ctx_zip_code business) @ ''\<newline>''
        @ ''\<newline>''
        @ ''BUSINESS HOURS:\<newline>''
        @ format_hours (ctx_business_hours business) @ ''\<newline>''
        @ ''\<newline>''
        @ ''SERVICES OFFERED:\<newline>''
        @ join '', '' services @ ''\<newline>''
        @ ''\<newline>''
        @ ''PERSONALITY GUIDELINES:\<newline>''
        @ py_str (ctx_ai_personality business) @ ''\<newline>''
        @ ''\<newline>''
        @ ''IMPORTANT RULES:\<newline>''
        @ ''1. Always be polite and professional\<newline>''
        @ ''2. Never make up information you don't have\<newline>''
        @ ''3. If you can't help with something, offer to transfer to a human\<newline>''
        @ ''4. For emergencies, advise calling 911 if life-threatening\<newline>''
        @ ''5. Collect necessary information for appointments (name, phone, preferred date/time, reason)\<newline>''
        @ ''6. Confirm information back to the caller before proceeding\<newline>''
        @ ''7. Keep responses concise and natural for voice conversation\<newline>''
        @ ''\<newline>''
        @ ''AVAILABLE ACTIONS:\<newline>''
        @ ''- Schedule appointment (requires: name, phone, date, time, reason)\<newline>''
        @ ''- Answer questions about services, hours, location\<newline>''
        @ ''- Cancel or reschedule existing appointments\<newline>''
        @ ''- Transfer to human staff\<newline>''
        @ ''- Take a message\<newline>''))"

subsection \<open>Custom prompts\<close>

text \<open>One entry of the list \<open>prompt_data\<close> that the call-start webhook builds: all six keys
  are present, a NULL column is \<open>None\<close>.\<close>

record prompt_data =
  category :: "string option"
  trigger_phrases :: "string option"
  prompt_content :: string
  ai_instructions :: "string option"
  requires_info_collection :: bool
  fields_to_collect :: "string option"

text \<open>The value of \<open>triggers\<close> and of \<open>fields\<close> after the decoding attempt (a value that is
  not a string is left as it is: \<open>None\<close> cannot be joined).\<close>

definition triggers_of :: "env \<Rightarrow> prompt_data \<Rightarrow> decoded" where
  "triggers_of e prompt =
     (case trigger_phrases prompt of
        None \<Rightarrow> NotStrings
      | Some triggers \<Rightarrow>
          (case json_loads e triggers of None \<Rightarrow> Strings [triggers] | Some v \<Rightarrow> v))"

definition fields_of :: "env \<Rightarrow> prompt_data \<Rightarrow> decoded" where
  "fields_of e prompt =
     (case fields_to_collect prompt of
        None \<Rightarrow> NotStrings
      | Some field_text \<Rightarrow>
          (case json_loads e field_text of None \<Rightarrow> Strings [] | Some v \<Rightarrow> v))"

definition comma_join :: "decoded \<Rightarrow> error + string" where
  "comma_join v = (case v of Strings xs \<Rightarrow> Inr (join '', '' xs) | NotStrings \<Rightarrow> Inl TypeError)"

text \<open>What one iteration of the loop appends to \<open>prompt_context\<close>.\<close>

definition prompt_text :: "env \<Rightarrow> prompt_data \<Rightarrow> error + string" where
  "prompt_text e prompt =
     (case comma_join (triggers_of e prompt) of
        Inl err \<Rightarrow> Inl err
      | Inr triggers \<Rightarrow>
          (let text =
               ''\<newline>When caller mentions: '' @ triggers @ ''\<newline>''
             @ ''Category: '' @ py_str (category prompt) @ ''\<newline>''
             @ ''Response: '' @ prompt_content prompt @ ''\<newline>''
             @ ''Instructions: '' @ py_str (ai_instructions prompt) @ ''\<newline>''
           in if requires_info_collection prompt then
                (case comma_join (fields_of e prompt) of
                   Inl err \<Rightarrow> Inl err
                 | Inr collect \<Rightarrow> Inr (text @ ''Collect: '' @ collect @ ''\<newline>''))
              else Inr text))"

fun prompts_text :: "env \<Rightarrow> string \<Rightarrow> prompt_data list \<Rightarrow> error + string" where
  "prompts_text e prompt_context [] = Inr prompt_context"
| "prompts_text e prompt_context (prompt # prompts) =
     (case prompt_text e prompt of
        Inl err \<Rightarrow> Inl err
      | Inr text \<Rightarrow> prompts_text e (prompt_context @ text) prompts)"

definition add_prompts_to_context :: "env \<Rightarrow> handler \<Rightarrow> prompt_data list \<Rightarrow> error + handler" where
  "add_prompts_to_context e h prompts =
     (if prompts = [] then Inr h
      else
        (case prompts_text e ''\<newline>\<newline>CUSTOM PROMPTS AND RESPONSES:\<newline>'' prompts of
           Inl err \<Rightarrow> Inl err
         | Inr prompt_context \<Rightarrow>
             Inr (h\<lparr>business_context :=
                       (business_context h)\<lparr>custom_prompts := Some prompt_context\<rparr>\<rparr>)))"

subsection \<open>One conversational turn\<close>

text \<open>
  The dictionary \<open>process_input\<close> returns has one of two shapes: the recovered failure
  with the keys \<open>response\<close>, \<open>action\<close> and \<open>error\<close>, or the result with the keys
  \<open>response\<close>, \<open>action\<close> and \<open>action_data\<close>.
\<close>

datatype ai_result =
    Fallback string string string
  | Result "string option" "string option" "dict option"

fun get_response :: "ai_result \<Rightarrow> string option" where
  "get_response (Fallback r a err) = Some r"
| "get_response (Result r a d) = r"

fun get_action :: "ai_result \<Rightarrow> string option" where
  "get_action (Fallback r a err) = Some a"
| "get_action (Result r a d) = a"

fun get_action_data :: "ai_result \<Rightarrow> dict option" where
  "get_action_data (Fallback r a err) = None"
| "get_action_data (Result r a d) = d"

definition get_action_response :: "string \<Rightarrow> dict \<Rightarrow> string" where
  "get_action_response action data =
     (if action = ''schedule_appointment'' then
        ''I've scheduled your appointment for '' @ py_str (dict_get data ''preferred_date'')
        @ '' at '' @ py_str (dict_get data ''preferred_time'')
        @ ''. We'll see you then, '' @ py_str (dict_get data ''patient_name'') @ ''!''
      else if action = ''transfer_call'' then
        ''I'll transfer you to one of our staff members now. Please hold.''
      else if action = ''end_call'' then ''Thank you for calling! Have a great day.''
      else [])"

text \<open>The messages of the request, built from the system prompt, the collected
  information and the history (which already ends with the caller's message).\<close>

definition build_messages :: "env \<Rightarrow> handler \<Rightarrow> string \<Rightarrow> dict \<Rightarrow> chat_message list" where
  "build_messages e h system_prompt collected_info =
     [\<lparr>role = ''system'',
       content = Some (system_prompt
         @ (case custom_prompts (business_context h) of None \<Rightarrow> [] | Some p \<Rightarrow> p))\<rparr>]
     @ (if collected_info \<noteq> [] then
          [\<lparr>role = ''system'',
            content = Some (''Information collected so far: '' @ dict_repr e collected_info)\<rparr>]
        else [])
     @ conversation_history h"

definition process_input ::
  "env \<Rightarrow> handler \<Rightarrow> string \<Rightarrow> dict \<Rightarrow> (error + ai_result) \<times> handler" where
  "process_input e h user_input collected_info =
     (if \<not> client h then
        (Inr (Fallback
           ''I apologize, but I'm having technical difficulties. Please hold while I transfer you to our staff.''
           ''transfer'' ''OpenAI not configured''), h)
      else
        (let h1 = h\<lparr>conversation_history :=
                      conversation_history h @ [\<lparr>role = ''user'', content = Some user_input\<rparr>]\<rparr>
         in case build_system_prompt (business_context h1) of
              Inl err \<Rightarrow> (Inl err, h1)
            | Inr system_prompt \<Rightarrow>
                (case chat_completion e (build_messages e h1 system_prompt collected_info) of
                   Raises err \<Rightarrow>
                     (Inr (Fallback
                        ''I apologize, but I'm experiencing some issues. Let me transfer you to our staff.''
                        ''transfer'' err), h1)
                 | Message message_content function_call \<Rightarrow>
                     (case function_call of
                        Some (function_name, arguments) \<Rightarrow>
                          (case json_loads_args e arguments of
                             Inl err \<Rightarrow>
                               (Inr (Fallback
                                  ''I apologize, but I'm experiencing some issues. Let me transfer you to our staff.''
                                  ''transfer'' err), h1)
                           | Inr function_args \<Rightarrow>
                               (let response =
                                  (if message_content \<noteq> None \<and> message_content \<noteq> Some []
                                   then message_content
                                   else Some (get_action_response function_name function_args))
                                in (Inr (Result response (Some function_name) (Some function_args)),
                                    h1\<lparr>conversation_history := conversation_history h1
                                         @ [\<lparr>role = ''assistant'', content = response\<rparr>]\<rparr>)))
                      | None \<Rightarrow>
                          (Inr (Result message_content None None),
                           h1\<lparr>conversation_history := conversation_history h1
                                @ [\<lparr>role = ''assistant'', content = message_content\<rparr>]\<rparr>)))))"

subsection \<open>Sentiment and summary\<close>

definition analyze_sentiment :: "env \<Rightarrow> handler \<Rightarrow> string \<Rightarrow> string" where
  "analyze_sentiment e h text =
     (if \<not> client h then ''neutral''
      else
        (case sentiment_completion e text of
           None \<Rightarrow> ''neutral''
         | Some c \<Rightarrow>
             (let sentiment = lower (strip c)
              in if sentiment \<in> set [''positive'', ''neutral'', ''negative''] then sentiment
                 else ''neutral'')))"

definition summarize_call :: "env \<Rightarrow> handler \<Rightarrow> string" where
  "summarize_call e h =
     (if \<not> client h \<or> conversation_history h = [] then ''No conversation to summarize.''
      else
        (case summary_completion e
                (join ''\<newline>''
                   (map (\<lambda>msg. role msg @ '': '' @ py_str (content msg)) (conversation_history h))) of
           None \<Rightarrow> ''Unable to generate summary.''
         | Some c \<Rightarrow> strip c))"


section \<open>Durable records: models/\<close>

text \<open>
  The rows of the durable store, with the columns the call handling reads or writes.
  A nullable column is an \<^typ>\<open>'a option\<close>. A table is the list of its rows; a row is
  found by its primary key with \<^const>\<open>find\<close>.
\<close>

datatype CallStatus = IN_PROGRESS | COMPLETED | TRANSFERRED | VOICEMAIL | MISSED | FAILED

record business =
  business_pk :: nat
  name :: string
  business_type :: "string option"
  phone_number :: "string option"
  address_line1 :: "string option"
  city :: "string option"
  state :: "string option"
  zip_code :: "string option"
  business_hours :: "(string \<times> day_hours) list option"
  services :: "string list option"
  ai_voice :: "string option"
  ai_personality :: "string option"
  greeting_message :: "string option"
  twilio_phone_number :: "string option"

record prompt =
  p_business_id :: nat
  p_category :: "string option"
  p_trigger_phrases :: "string option"
  p_content :: string
  p_ai_instructions :: "string option"
  p_requires_info_collection :: bool
  p_fields_to_collect :: "string option"
  priority :: int
  is_active :: bool

record call =
  call_pk :: nat
  business_id :: nat
  twilio_call_sid :: string
  caller_number :: "string option"
  called_number :: "string option"
  status :: CallStatus
  duration_seconds :: int
  call_transcript :: "string option"
  call_summary :: "string option"
  sentiment :: "string option"
  call_collected_info :: dict
  action_taken :: "string option"
  action_details :: "dict option"

record database =
  businesses :: "business list"
  prompts :: "prompt list"
  calls :: "call list"

text \<open>\<open>scalar_one_or_none\<close> on the rows a query selects.\<close>

fun scalar_one_or_none :: "'a list \<Rightarrow> error + 'a option" where
  "scalar_one_or_none [] = Inr None"
| "scalar_one_or_none [x] = Inr (Some x)"
| "scalar_one_or_none (x # y # ys) = Inl MultipleResultsFound"

text \<open>The key the store gives a new call row, and the commit of a changed call row.\<close>

definition next_pk :: "call list \<Rightarrow> nat" where
  "next_pk cs = Suc (foldr max (map call_pk cs) 0)"

definition update_call :: "database \<Rightarrow> call \<Rightarrow> database" where
  "update_call d c = d\<lparr>calls := map (\<lambda>c'. if call_pk c' = call_pk c then c else c') (calls d)\<rparr>"

section \<open>The webhooks: api/webhooks.py\<close>

text \<open>
  The state of the process is the registry \<open>active_conversations\<close> and the durable
  store. A webhook takes the state and returns its response, or the exception it lets
  escape, together with the state it leaves behind: what was changed in memory before an
  exception stays changed, what was not committed is rolled back.
\<close>

record conversation =
  ai_handler :: handler
  call_id :: nat
  conv_business_id :: nat
  collected_info :: dict
  transcript :: "string list"

record world =
  active_conversations :: "string \<rightharpoonup> conversation"
  db :: database

datatype http_response = Xml twiml | Json "(string \<times> string) list"

definition polly_voice_map :: "(string \<times> string) list" where
  "polly_voice_map =
     [(''alloy'', ''Polly.Joanna''), (''echo'', ''Polly.Matthew''), (''fable'', ''Polly.Amy''),
      (''onyx'', ''Polly.Brian''), (''nova'', ''Polly.Salli''), (''shimmer'', ''Polly.Kimberly'')]"

definition polly_voice :: "string option \<Rightarrow> string" where
  "polly_voice v =
     (case v of
        None \<Rightarrow> ''Polly.Joanna''
      | Some a \<Rightarrow> (case map_of polly_voice_map a of None \<Rightarrow> ''Polly.Joanna'' | Some p \<Rightarrow> p))"

definition context_of :: "business \<Rightarrow> business_context" where
  "context_of b =
     \<lparr>ctx_name = name b, ctx_business_type = business_type b,
      ctx_phone_number = phone_number b, ctx_address_line1 = address_line1 b,
      ctx_city = city b, ctx_state = state b, ctx_zip_code = zip_code b,
      ctx_business_hours = business_hours b, ctx_services = services b,
      ctx_ai_personality = ai_personality b, custom_prompts = None\<rparr>"

definition prompt_data_of :: "prompt \<Rightarrow> prompt_data" where
  "prompt_data_of p =
     \<lparr>category = p_category p, trigger_phrases = p_trigger_phrases p,
      prompt_content = p_content p, ai_instructions = p_ai_instructions p,
      requires_info_collection = p_requires_info_collection p,
      fields_to_collect = p_fields_to_collect p\<rparr>"

text \<open>The active prompts of a business, by descending priority.\<close>

definition load_prompts :: "database \<Rightarrow> nat \<Rightarrow> prompt list" where
  "load_prompts d bid =
     sort_key (\<lambda>p. - priority p) (filter (\<lambda>p. p_business_id p = bid \<and> is_active p) (prompts d))"

definition handle_incoming_call ::
  "env \<Rightarrow> world \<Rightarrow> string \<Rightarrow> string option \<Rightarrow> string option
     \<Rightarrow> (error + http_response) \<times> world" where
  "handle_incoming_call e w CallSid From To =
     (case scalar_one_or_none (filter (\<lambda>b. twilio_phone_number b = To) (businesses (db w))) of
        Inl err \<Rightarrow> (Inl err, w)
      | Inr None \<Rightarrow>
          (Inr (Xml (create_response
             (Some ''We're sorry, but this number is not configured. Please try again later.'')
             ''Polly.Joanna'' True True)), w)
      | Inr (Some b) \<Rightarrow>
          if \<not> commit_ok e then (Inl DbError, w)
          else
            (let c = \<lparr>call_pk = next_pk (calls (db w)), business_id = business_pk b,
                       twilio_call_sid = CallSid, caller_number = From, called_number = To,
                       status = IN_PROGRESS, duration_seconds = 0, call_transcript = None,
                       call_summary = None, sentiment = None, call_collected_info = [],
                       action_taken = None, action_details = Some []\<rparr>;
                 w1 = w\<lparr>db := (db w)\<lparr>calls := calls (db w) @ [c]\<rparr>\<rparr>;
                 prompt_data = map prompt_data_of (load_prompts (db w1) (business_pk b))
             in case add_prompts_to_context e (init_handler e (context_of b)) prompt_data of
                  Inl err \<Rightarrow> (Inl err, w1)
                | Inr h \<Rightarrow>
                    (Inr (Xml (create_greeting_response (greeting_message b)
                                 (polly_voice (ai_voice b)))),
                     w1\<lparr>active_conversations := (active_conversations w1)(CallSid \<mapsto>
                          \<lparr>ai_handler = h, call_id = call_pk c,
                           conv_business_id = business_pk b, collected_info = [],
                           transcript = []\<rparr>)\<rparr>)))"

text \<open>The conversation object of the registry is mutated in place.\<close>

definition store :: "world \<Rightarrow> string \<Rightarrow> conversation \<Rightarrow> world" where
  "store w CallSid conv = w\<lparr>active_conversations := (active_conversations w)(CallSid \<mapsto> conv)\<rparr>"

text \<open>\<open>response.get("action_data", {})\<close>: the default applies when the key is absent.\<close>

fun get_action_data_or_empty :: "ai_result \<Rightarrow> dict option" where
  "get_action_data_or_empty (Fallback r a err) = Some []"
| "get_action_data_or_empty (Result r a d) = d"

definition handle_speech_input ::
  "env \<Rightarrow> world \<Rightarrow> string \<Rightarrow> string option \<Rightarrow> (error + http_response) \<times> world" where
  "handle_speech_input e w CallSid SpeechResult =
     (let repeat =
        (Inr (Xml (create_response
           (Some ''I'm sorry, I didn't catch that. Could you please repeat?'')
           ''Polly.Joanna'' True False)), w)
      in case active_conversations w CallSid of
        None \<Rightarrow> repeat
      | Some conv \<Rightarrow>
          (case SpeechResult of
             None \<Rightarrow> repeat
           | Some speech \<Rightarrow>
               if speech = [] then repeat
               else
                 (let transcript1 = transcript conv @ [''Caller: '' @ speech]
                  in case process_input e (ai_handler conv) speech (collected_info conv) of
                    (Inl err, h) \<Rightarrow>
                      (Inl err, store w CallSid (conv\<lparr>ai_handler := h, transcript := transcript1\<rparr>))
                  | (Inr response, h) \<Rightarrow>
                      (let conv2 = conv\<lparr>ai_handler := h,
                             transcript := transcript1 @ [''AI: '' @ py_str (get_response response)]\<rparr>;
                           continue =
                             (Inr (Xml (create_response (get_response response)
                                          ''Polly.Joanna'' True False)),
                              store w CallSid conv2)
                       in if get_action response = Some ''schedule_appointment'' then
                            (let conv3 =
                               (case get_action_data response of
                                  None \<Rightarrow> conv2
                                | Some action_data \<Rightarrow>
                                    if action_data \<noteq> [] then
                                      conv2\<lparr>collected_info :=
                                              dict_update (collected_info conv2) action_data\<rparr>
                                    else conv2);
                                 w3 = store w CallSid conv3;
                                 reply = Xml (create_response (get_response response)
                                                ''Polly.Joanna'' True True)
                             in case find (\<lambda>c. call_pk c = call_id conv3) (calls (db w3)) of
                                  None \<Rightarrow> (Inr reply, w3)
                                | Some c \<Rightarrow>
                                    if \<not> commit_ok e then (Inl DbError, w3)
                                    else
                                      (Inr reply,
                                       w3\<lparr>db := update_call (db w3)
                                         (c\<lparr>call_collected_info := collected_info conv3,
                                            action_taken := Some ''appointment_scheduled'',
                                            action_details := get_action_data_or_empty response\<rparr>)\<rparr>))
                          else if get_action response = Some ''transfer_call'' then
                            (case find (\<lambda>b. business_pk b = conv_business_id conv2)
                                       (businesses (db w)) of
                               None \<Rightarrow> continue
                             | Some b \<Rightarrow>
                                 (case phone_number b of
                                    None \<Rightarrow> continue
                                  | Some number \<Rightarrow>
                                      if number = [] then continue
                                      else
                                        (Inr (Xml (transfer_call number (get_response response)
                                                     ''Polly.Joanna'')),
                                         store w CallSid conv2)))
                          else if get_action response = Some ''end_call'' then
                            (Inr (Xml (create_response (get_response response)
                                         ''Polly.Joanna'' True True)),
                             store w CallSid conv2)
                          else continue))))"

text \<open>The provider's status codes and the status they map to.\<close>

definition status_map :: "(string \<times> CallStatus) list" where
  "status_map =
     [(''completed'', COMPLETED), (''busy'', MISSED), (''no-answer'', MISSED),
      (''canceled'', MISSED), (''failed'', FAILED)]"

definition map_status :: "string \<Rightarrow> CallStatus" where
  "map_status TwilioCallStatus =
     (case map_of status_map (lower TwilioCallStatus) of None \<Rightarrow> COMPLETED | Some s \<Rightarrow> s)"

text \<open>The call row as the status webhook leaves it before the commit.\<close>

definition finalize_call ::
  "env \<Rightarrow> conversation \<Rightarrow> call \<Rightarrow> string \<Rightarrow> int option \<Rightarrow> call" where
  "finalize_call e conv c TwilioCallStatus CallDuration =
     (let c1 = c\<lparr>status := map_status TwilioCallStatus,
                 duration_seconds := (case CallDuration of None \<Rightarrow> 0 | Some n \<Rightarrow> n),
                 call_transcript := Some (join ''\<newline>'' (transcript conv)),
                 call_summary := Some (summarize_call e (ai_handler conv))\<rparr>;
          caller_messages =
            map (\<lambda>line. replace line ''Caller: '' [])
              (filter (\<lambda>line. startswith line ''Caller:'') (transcript conv))
      in if join ''\<newline>'' (transcript conv) \<noteq> [] \<and> caller_messages \<noteq> [] then
           c1\<lparr>sentiment := Some (analyze_sentiment e (ai_handler conv) (join '' '' caller_messages))\<rparr>
         else c1)"

definition handle_call_status ::
  "env \<Rightarrow> world \<Rightarrow> string \<Rightarrow> string \<Rightarrow> int option \<Rightarrow> (error + http_response) \<times> world" where
  "handle_call_status e w CallSid TwilioCallStatus CallDuration =
     (case active_conversations w CallSid of
        None \<Rightarrow> (Inr (Json [(''status'', ''ok'')]), w)
      | Some conv \<Rightarrow>
          (case find (\<lambda>c. call_pk c = call_id conv) (calls (db w)) of
             None \<Rightarrow>
               (Inr (Json [(''status'', ''ok'')]),
                w\<lparr>active_conversations := (active_conversations w)(CallSid := None)\<rparr>)
           | Some c \<Rightarrow>
               if \<not> commit_ok e then (Inl DbError, w)
               else
                 (Inr (Json [(''status'', ''ok'')]),
                  w\<lparr>db := update_call (db w) (finalize_call e conv c TwilioCallStatus CallDuration),
                    active_conversations := (active_conversations w)(CallSid := None)\<rparr>)))"


section \<open>When the model call fails\<close>

text \<open>The conversational request fails when the completion raises or when the argument
  text of the function call it returns does not decode: both end in the \<open>except\<close> branch of
  \<open>process_input\<close>.\<close>

definition model_call_fails :: "env \<Rightarrow> chat_message list \<Rightarrow> bool" where
  "model_call_fails e messages =
     (case chat_completion e messages of
        Raises err \<Rightarrow> True
      | Message c None \<Rightarrow> False
      | Message c (Some (function_name, arguments)) \<Rightarrow> isl (json_loads_args e arguments))"

text \<open>The handler once the caller's message is in its history.\<close>

definition with_user_message :: "handler \<Rightarrow> string \<Rightarrow> handler" where
  "with_user_message h user_input =
     h\<lparr>conversation_history :=
         conversation_history h @ [\<lparr>role = ''user'', content = Some user_input\<rparr>]\<rparr>"

section \<open>A small deployment\<close>

text \<open>One business with one custom prompt whose list fields are not JSON, a call in
  progress with one exchange, and the environments the examples run in.\<close>

definition acme :: business where
  "acme =
     \<lparr>business_pk = 1, name = ''Acme Dental'', business_type = Some ''dental'',
      phone_number = Some ''+15550001111'', address_line1 = Some ''1 Main St'',
      city = Some ''Springfield'', state = Some ''IL'', zip_code = Some ''62701'',
      business_hours = None, services = Some [''Cleaning'', ''Fillings''],
      ai_voice = Some ''alloy'', ai_personality = None, greeting_message = Some ''Hello!'',
      twilio_phone_number = Some ''+15550002222''\<rparr>"

definition greeting_prompt :: prompt where
  "greeting_prompt =
     \<lparr>p_business_id = 1, p_category = Some ''scheduling'',
      p_trigger_phrases = Some ''book a visit'', p_content = ''Happy to help.'',
      p_ai_instructions = None, p_requires_info_collection = True,
      p_fields_to_collect = Some ''name and phone'', priority = 5, is_active = True\<rparr>"

definition call1 :: call where
  "call1 =
     \<lparr>call_pk = 1, business_id = 1, twilio_call_sid = ''CA1'',
      caller_number = Some ''+15559990000'', called_number = Some ''+15550002222'',
      status = IN_PROGRESS, duration_seconds = 0, call_transcript = None,
      call_summary = None, sentiment = None, call_collected_info = [],
      action_taken = None, action_details = Some []\<rparr>"

definition handler1 :: handler where
  "handler1 =
     \<lparr>business_context = context_of acme, client = True,
      conversation_history =
        [\<lparr>role = ''user'', content = Some ''hi''\<rparr>,
         \<lparr>role = ''assistant'', content = Some ''hello''\<rparr>]\<rparr>"

definition conv1 :: conversation where
  "conv1 =
     \<lparr>ai_handler = handler1, call_id = 1, conv_business_id = 1, collected_info = [],
      transcript = [''Caller: hi'', ''AI: hello'']\<rparr>"

definition world1 :: world where
  "world1 =
     \<lparr>active_conversations = [''CA1'' \<mapsto> conv1],
      db = \<lparr>businesses = [acme], prompts = [greeting_prompt], calls = [call1]\<rparr>\<rparr>"

definition jane :: dict where
  "jane = [(''patient_name'', ''Jane''), (''preferred_date'', ''2024-06-01''),
           (''preferred_time'', ''10:00'')]"

text \<open>The model schedules an appointment for Jane; the store accepts the commit.\<close>

definition env_ok :: env where
  "env_ok =
     \<lparr>openai_api_key = Some ''sk-test'',
      chat_completion = (\<lambda>messages. Message None (Some (''schedule_appointment'', ''jane''))),
      summary_completion = (\<lambda>text. Some ''The caller booked a visit.''),
      sentiment_completion = (\<lambda>text. Some ''Positive''),
      json_loads = (\<lambda>text. None),
      json_loads_args = (\<lambda>text. Inr jane),
      dict_repr = (\<lambda>d. ''{}''),
      commit_ok = True\<rparr>"

text \<open>The same, with a store that rejects the commit.\<close>

definition env_commit_fails :: env where
  "env_commit_fails = env_ok\<lparr>commit_ok := False\<rparr>"

text \<open>The same, with a model whose completion raises.\<close>

definition env_down :: env where
  "env_down = env_ok\<lparr>chat_completion := (\<lambda>messages. Raises ''timeout'')\<rparr>"

text \<open>The same call after its row has been deleted from the store (deleting a business
  deletes its calls).\<close>

definition world2 :: world where
  "world2 = world1\<lparr>db := (db world1)\<lparr>calls := []\<rparr>\<rparr>"

section \<open>Facts about the store and the model client\<close>

lemma find_pk: "find (\<lambda>x. call_pk x = k) cs = Some c \<Longrightarrow> call_pk c = k"
  by (induction cs) (auto split: if_splits)

lemma find_update_call:
  assumes "find (\<lambda>x. call_pk x = k) cs = Some c" and "call_pk c' = k"
  shows "find (\<lambda>x. call_pk x = k) (calls (update_call (d\<lparr>calls := cs\<rparr>) c')) = Some c'"
  using assms by (induction cs) (auto simp add: update_call_def split: if_splits)

lemma finalize_call_pk [simp]:
  "call_pk (finalize_call e conv c s d) = call_pk c"
  by (simp add: finalize_call_def Let_def)

lemma finalize_call_status:
  "status (finalize_call e conv c s d) = map_status s"
  by (simp add: finalize_call_def Let_def)

lemma finalize_call_duration:
  "duration_seconds (finalize_call e conv c s d) = (case d of None \<Rightarrow> 0 | Some n \<Rightarrow> n)"
  by (simp add: finalize_call_def Let_def)

lemma map_status_cases:
  "map_status s =
     (if lower s = ''completed'' then COMPLETED
      else if lower s = ''busy'' \<or> lower s = ''no-answer'' \<or> lower s = ''canceled'' then MISSED
      else if lower s = ''failed'' then FAILED
      else COMPLETED)"
  by (simp add: map_status_def status_map_def)

lemma add_prompts_keeps_history:
  "add_prompts_to_context e h0 ps = Inr h \<Longrightarrow>
     conversation_history h = conversation_history h0 \<and> client h = client h0"
  by (auto simp add: add_prompts_to_context_def split: if_splits sum.splits)

lemma load_prompts_calls [simp]:
  "load_prompts (d\<lparr>calls := cs\<rparr>) bid = load_prompts d bid"
  by (simp add: load_prompts_def)

lemma build_system_prompt_ok:
  "ctx_services c = Some s \<Longrightarrow> \<exists>sp. build_system_prompt c = Inr sp"
  by (simp add: build_system_prompt_def)

lemma process_input_fails:
  assumes "client h"
    and "build_system_prompt (business_context h) = Inr sp"
    and "model_call_fails e (build_messages e (with_user_message h user_input) sp collected)"
  shows "\<exists>err. process_input e h user_input collected =
     (Inr (Fallback
        ''I apologize, but I'm experiencing some issues. Let me transfer you to our staff.''
        ''transfer'' err), with_user_message h user_input)"
  using assms
  by (auto simp add: process_input_def model_call_fails_def with_user_message_def Let_def
        split: llm_outcome.splits option.splits sum.splits prod.splits)

lemma process_input_function_call:
  assumes "client h"
    and "build_system_prompt (business_context h) = Inr sp"
    and "chat_completion e (build_messages e (with_user_message h user_input) sp collected) =
           Message mc (Some (function_name, arguments))"
    and "json_loads_args e arguments = Inr args"
  shows "process_input e h user_input collected =
     (let response = (if mc \<noteq> None \<and> mc \<noteq> Some [] then mc
                      else Some (get_action_response function_name args))
      in (Inr (Result response (Some function_name) (Some args)),
          (with_user_message h user_input)\<lparr>conversation_history :=
             conversation_history (with_user_message h user_input)
               @ [\<lparr>role = ''assistant'', content = response\<rparr>]\<rparr>))"
  using assms
  by (simp add: process_input_def with_user_message_def Let_def)

subsection \<open>The small deployment\<close>

lemma handler1_prompt: "\<exists>sp. build_system_prompt (business_context handler1) = Inr sp"
  by (rule build_system_prompt_ok [of _ "[''Cleaning'', ''Fillings'']"])
     (simp add: handler1_def context_of_def acme_def)

lemma acme_matched:
  "filter (\<lambda>b. twilio_phone_number b = Some ''+15550002222'') (businesses (db world1)) = [acme]"
  by (simp add: world1_def acme_def)

lemma acme_prompts:
  "add_prompts_to_context env_ok (init_handler env_ok (context_of acme))
     (map prompt_data_of (load_prompts (db world1) (business_pk acme))) =
   Inr ((init_handler env_ok (context_of acme))\<lparr>business_context :=
     (context_of acme)\<lparr>custom_prompts := Some
       (''\<newline>\<newline>CUSTOM PROMPTS AND RESPONSES:\<newline>''
        @ ''\<newline>When caller mentions: book a visit\<newline>''
        @ ''Category: scheduling\<newline>''
        @ ''Response: Happy to help.\<newline>''
        @ ''Instructions: None\<newline>''
        @ ''Collect: \<newline>'')\<rparr>\<rparr>)"
  by (simp add: add_prompts_to_context_def load_prompts_def world1_def greeting_prompt_def acme_def
      prompt_data_of_def prompt_text_def triggers_of_def fields_of_def comma_join_def env_ok_def
      init_handler_def py_str_def)

lemma world2_live: "active_conversations world2 ''CA1'' = Some conv1"
  by (simp add: world2_def world1_def)

lemma jane_scheduled:
  "get_action_response ''schedule_appointment'' jane =
     ''I've scheduled your appointment for 2024-06-01 at 10:00. We'll see you then, Jane!''"
  by (simp add: get_action_response_def jane_def dict_get_def py_str_def)

section \<open>The model client\<close>

text \<open>
  C1. On a turn where the model call fails, \<open>process_input\<close> raises nothing and returns a
  fixed reply with an error marker, but the action it returns is the text \<open>transfer\<close>:
  with an unconfigured client, and with a completion that raises. The speech-turn webhook
  compares the action with \<open>transfer_call\<close>, so for a business that has a transfer number
  the caller hears the promise of a transfer inside a gather, and no dial follows.
\<close>

theorem fallback_action_is_transfer:
  "process_input env_ok (handler1\<lparr>client := False\<rparr>) ''hello'' [] =
     (Inr (Fallback
        ''I apologize, but I'm having technical difficulties. Please hold while I transfer you to our staff.''
        ''transfer'' ''OpenAI not configured''), handler1\<lparr>client := False\<rparr>)
   \<and> fst (process_input env_down handler1 ''hello'' []) =
       Inr (Fallback
        ''I apologize, but I'm experiencing some issues. Let me transfer you to our staff.''
        ''transfer'' ''timeout'')
   \<and> phone_number acme = Some ''+15550001111''
   \<and> fst (handle_speech_input env_down world1 ''CA1'' (Some ''hello'')) =
       Inr (Xml [Gather ''/api/webhooks/twilio/handle-input''
                   [Say (Some ''I apologize, but I'm experiencing some issues. Let me transfer you to our staff.'')
                      ''Polly.Joanna''],
                 Say (Some ''Are you still there?'') ''Polly.Joanna'',
                 Redirect ''/api/webhooks/twilio/voice''])"
proof -
  obtain sp where prompt: "build_system_prompt (business_context handler1) = Inr sp"
    using handler1_prompt by auto
  have down: "process_input env_down handler1 ''hello'' [] =
      (Inr (Fallback
        ''I apologize, but I'm experiencing some issues. Let me transfer you to our staff.''
        ''transfer'' ''timeout''), with_user_message handler1 ''hello'')"
    using prompt
    by (simp add: process_input_def with_user_message_def Let_def env_down_def env_ok_def
          handler1_def)
  have turn: "fst (handle_speech_input env_down world1 ''CA1'' (Some ''hello'')) =
       Inr (Xml [Gather ''/api/webhooks/twilio/handle-input''
                   [Say (Some ''I apologize, but I'm experiencing some issues. Let me transfer you to our staff.'')
                      ''Polly.Joanna''],
                 Say (Some ''Are you still there?'') ''Polly.Joanna'',
                 Redirect ''/api/webhooks/twilio/voice''])"
    using down
    by (simp add: handle_speech_input_def world1_def conv1_def Let_def create_response_def)
  show ?thesis
    using down turn by (simp add: process_input_def acme_def)
qed

text \<open>
  C9, as the code has it. When the text of a list field does not decode, the fields to
  collect become the empty sequence, and the trigger phrases become the sequence whose
  only element is the text itself; the prompt is rendered with that text after
  "When caller mentions" and with nothing after "Collect".
\<close>

theorem undecodable_list_fields:
  assumes "json_loads e t = None" and "json_loads e f = None"
  shows "triggers_of e (p\<lparr>trigger_phrases := Some t\<rparr>) = Strings [t]
    \<and> fields_of e (p\<lparr>fields_to_collect := Some f\<rparr>) = Strings []
    \<and> prompt_text e (p\<lparr>trigger_phrases := Some t, requires_info_collection := True,
                        fields_to_collect := Some f\<rparr>) =
        Inr (''\<newline>When caller mentions: '' @ t @ ''\<newline>''
             @ ''Category: '' @ py_str (category p) @ ''\<newline>''
             @ ''Response: '' @ prompt_content p @ ''\<newline>''
             @ ''Instructions: '' @ py_str (ai_instructions p) @ ''\<newline>''
             @ ''Collect: '' @ ''\<newline>'')"
  using assms
  by (simp add: triggers_of_def fields_of_def prompt_text_def comma_join_def)

theorem undecodable_list_fields_witness:
  "json_loads env_ok ''book a visit'' = None \<and> json_loads env_ok ''name and phone'' = None
   \<and> prompt_text env_ok (prompt_data_of greeting_prompt) =
       Inr (''\<newline>When caller mentions: book a visit\<newline>''
            @ ''Category: scheduling\<newline>''
            @ ''Response: Happy to help.\<newline>''
            @ ''Instructions: None\<newline>''
            @ ''Collect: \<newline>'')"
proof -
  have t: "json_loads env_ok ''book a visit'' = None" by (simp add: env_ok_def)
  have f: "json_loads env_ok ''name and phone'' = None" by (simp add: env_ok_def)
  have p: "(prompt_data_of greeting_prompt)\<lparr>trigger_phrases := Some ''book a visit'',
              requires_info_collection := True, fields_to_collect := Some ''name and phone''\<rparr> =
           prompt_data_of greeting_prompt"
    by (simp add: prompt_data_of_def greeting_prompt_def)
  show ?thesis
    using undecodable_list_fields [OF t f, of "prompt_data_of greeting_prompt"] t f
    by (simp add: p) (simp add: prompt_data_of_def greeting_prompt_def py_str_def)
qed

text \<open>The trigger phrases of the example prompt do not decode, and they are not treated
  as an empty sequence.\<close>

theorem undecodable_triggers_counterexample:
  "trigger_phrases (prompt_data_of greeting_prompt) = Some ''book a visit''
   \<and> json_loads env_ok ''book a visit'' = None
   \<and> triggers_of env_ok (prompt_data_of greeting_prompt) = Strings [''book a visit'']
   \<and> triggers_of env_ok (prompt_data_of greeting_prompt) \<noteq> Strings []"
  by (simp add: triggers_of_def prompt_data_of_def greeting_prompt_def env_ok_def)

section \<open>The call-start webhook\<close>

text \<open>
  C5. When the called number matches no business, the call-start webhook answers with
  exactly the "not configured" message followed by a hang-up, and it returns the state it
  was given: the registry has no new conversation and the store no new call row.
\<close>

theorem unmatched_number_not_configured:
  assumes "filter (\<lambda>b. twilio_phone_number b = To) (businesses (db w)) = []"
  shows "handle_incoming_call e w CallSid From To =
           (Inr (Xml [Say (Some ''We're sorry, but this number is not configured. Please try again later.'')
                        ''Polly.Joanna'', Hangup]), w)"
  using assms by (simp add: handle_incoming_call_def create_response_def)

theorem unmatched_number_not_configured_witness:
  "filter (\<lambda>b. twilio_phone_number b = Some ''+15557770000'') (businesses (db world1)) = []
   \<and> handle_incoming_call env_ok world1 ''CA9'' None (Some ''+15557770000'') =
       (Inr (Xml [Say (Some ''We're sorry, but this number is not configured. Please try again later.'')
                    ''Polly.Joanna'', Hangup]), world1)"
proof -
  have h: "filter (\<lambda>b. twilio_phone_number b = Some ''+15557770000'') (businesses (db world1)) = []"
    by (simp add: world1_def acme_def)
  show ?thesis
    using h unmatched_number_not_configured [OF h, of env_ok "''CA9''" None] by simp
qed

text \<open>
  C3, as the code has it. The registry has no create operation that can fail: when the
  called number matches one business, the store accepts the new call row and the prompts
  render, the call-start webhook answers with the greeting and stores a fresh
  conversation under the call identifier (empty transcript, nothing collected, empty
  history), whatever the registry held for that identifier before.
\<close>

theorem incoming_call_replaces_state:
  assumes "filter (\<lambda>b. twilio_phone_number b = To) (businesses (db w)) = [b]"
    and "commit_ok e"
    and "add_prompts_to_context e (init_handler e (context_of b))
           (map prompt_data_of (load_prompts (db w) (business_pk b))) = Inr h"
  shows "fst (handle_incoming_call e w CallSid From To) =
           Inr (Xml (create_greeting_response (greeting_message b) (polly_voice (ai_voice b))))
    \<and> active_conversations (snd (handle_incoming_call e w CallSid From To)) CallSid =
        Some \<lparr>ai_handler = h, call_id = next_pk (calls (db w)),
              conv_business_id = business_pk b, collected_info = [], transcript = []\<rparr>
    \<and> conversation_history h = []"
proof -
  have "conversation_history h = []"
    using add_prompts_keeps_history [OF assms(3)] by (simp add: init_handler_def)
  then show ?thesis
    using assms by (simp add: handle_incoming_call_def Let_def)
qed

theorem incoming_call_replaces_state_witness:
  "active_conversations world1 ''CA1'' = Some conv1
   \<and> fst (handle_incoming_call env_ok world1 ''CA1'' None (Some ''+15550002222'')) =
       Inr (Xml [Gather ''/api/webhooks/twilio/handle-input'' [Say (Some ''Hello!'') ''Polly.Joanna''],
                 Say (Some ''I didn't catch that. How may I help you?'') ''Polly.Joanna'',
                 Redirect ''/api/webhooks/twilio/voice''])
   \<and> map_option transcript
        (active_conversations (snd (handle_incoming_call env_ok world1 ''CA1'' None (Some ''+15550002222''))) ''CA1'') =
       Some []
   \<and> map_option call_id
        (active_conversations (snd (handle_incoming_call env_ok world1 ''CA1'' None (Some ''+15550002222''))) ''CA1'') =
       Some 2"
proof -
  have commit: "commit_ok env_ok" by (simp add: env_ok_def)
  have live: "active_conversations world1 ''CA1'' = Some conv1" by (simp add: world1_def)
  have pk: "next_pk (calls (db world1)) = 2" by (simp add: next_pk_def world1_def call1_def)
  show ?thesis
    using incoming_call_replaces_state [OF acme_matched commit acme_prompts, of "''CA1''" None] live
    by (simp add: pk create_greeting_response_def polly_voice_def polly_voice_map_def acme_def)
qed

text \<open>A second call-start request for the identifier of the call in progress is answered
  with the greeting, not with an error, and the conversation that had two transcript
  lines is replaced by one that has none.\<close>

theorem duplicate_call_id_counterexample:
  "active_conversations world1 ''CA1'' = Some conv1
   \<and> transcript conv1 = [''Caller: hi'', ''AI: hello'']
   \<and> fst (handle_incoming_call env_ok world1 ''CA1'' None (Some ''+15550002222'')) =
       Inr (Xml [Gather ''/api/webhooks/twilio/handle-input'' [Say (Some ''Hello!'') ''Polly.Joanna''],
                 Say (Some ''I didn't catch that. How may I help you?'') ''Polly.Joanna'',
                 Redirect ''/api/webhooks/twilio/voice''])
   \<and> map_option transcript
        (active_conversations (snd (handle_incoming_call env_ok world1 ''CA1'' None (Some ''+15550002222''))) ''CA1'') =
       Some []"
proof -
  have commit: "commit_ok env_ok" by (simp add: env_ok_def)
  have live: "active_conversations world1 ''CA1'' = Some conv1" by (simp add: world1_def)
  have run: "handle_incoming_call env_ok world1 ''CA1'' None (Some ''+15550002222'') =
      (Inr (Xml (create_greeting_response (greeting_message acme) (polly_voice (ai_voice acme)))),
       (world1\<lparr>db := (db world1)\<lparr>calls := calls (db world1) @
            [\<lparr>call_pk = next_pk (calls (db world1)), business_id = business_pk acme,
              twilio_call_sid = ''CA1'', caller_number = None, called_number = Some ''+15550002222'',
              status = IN_PROGRESS, duration_seconds = 0, call_transcript = None,
              call_summary = None, sentiment = None, call_collected_info = [],
              action_taken = None, action_details = Some []\<rparr>]\<rparr>\<rparr>)
         \<lparr>active_conversations := (active_conversations world1)(''CA1'' \<mapsto>
            \<lparr>ai_handler = (init_handler env_ok (context_of acme))\<lparr>business_context :=
                 (context_of acme)\<lparr>custom_prompts := Some
                   (''\<newline>\<newline>CUSTOM PROMPTS AND RESPONSES:\<newline>''
                    @ ''\<newline>When caller mentions: book a visit\<newline>''
                    @ ''Category: scheduling\<newline>''
                    @ ''Response: Happy to help.\<newline>''
                    @ ''Instructions: None\<newline>''
                    @ ''Collect: \<newline>'')\<rparr>\<rparr>,
              call_id = next_pk (calls (db world1)), conv_business_id = business_pk acme,
              collected_info = [], transcript = []\<rparr>)\<rparr>)"
    using acme_matched commit acme_prompts
    by (simp add: handle_incoming_call_def Let_def)
  show ?thesis
    unfolding run using live
    by (simp add: conv1_def create_greeting_response_def polly_voice_def polly_voice_map_def acme_def)
qed

section \<open>The speech-turn webhook\<close>

text \<open>
  C7. A speech turn whose call identifier has no conversation in the registry, or whose
  transcript text is absent or empty, is answered with the fixed "didn't catch that"
  message inside a gather, and the webhook returns the state it was given: no turn
  history, transcript line or collected field of any conversation has changed.
\<close>

theorem speech_degradation_keeps_state:
  assumes "active_conversations w CallSid = None \<or> SpeechResult = None \<or> SpeechResult = Some []"
  shows "handle_speech_input e w CallSid SpeechResult =
           (Inr (Xml [Gather ''/api/webhooks/twilio/handle-input''
                        [Say (Some ''I'm sorry, I didn't catch that. Could you please repeat?'')
                           ''Polly.Joanna''],
                      Say (Some ''Are you still there?'') ''Polly.Joanna'',
                      Redirect ''/api/webhooks/twilio/voice'']), w)"
  using assms
  by (auto simp add: handle_speech_input_def create_response_def Let_def split: option.splits)

theorem speech_degradation_keeps_state_witness:
  "active_conversations world1 ''CA1'' = Some conv1
   \<and> handle_speech_input env_ok world1 ''CA1'' (Some []) =
       (Inr (Xml [Gather ''/api/webhooks/twilio/handle-input''
                    [Say (Some ''I'm sorry, I didn't catch that. Could you please repeat?'')
                       ''Polly.Joanna''],
                  Say (Some ''Are you still there?'') ''Polly.Joanna'',
                  Redirect ''/api/webhooks/twilio/voice'']), world1)
   \<and> active_conversations world1 ''CA7'' = None
   \<and> handle_speech_input env_ok world1 ''CA7'' (Some ''hello'') =
       (Inr (Xml [Gather ''/api/webhooks/twilio/handle-input''
                    [Say (Some ''I'm sorry, I didn't catch that. Could you please repeat?'')
                       ''Polly.Joanna''],
                  Say (Some ''Are you still there?'') ''Polly.Joanna'',
                  Redirect ''/api/webhooks/twilio/voice'']), world1)"
proof -
  have absent: "active_conversations world1 ''CA7'' = None"
    by (simp add: world1_def)
  have live: "active_conversations world1 ''CA1'' = Some conv1"
    by (simp add: world1_def)
  show ?thesis
    using absent live
      speech_degradation_keeps_state [of world1 "''CA1''" "Some []" env_ok]
      speech_degradation_keeps_state [of world1 "''CA7''" "Some ''hello''" env_ok]
    by simp
qed

text \<open>
  C6, as the code has it. On a speech turn of a live call on which the model returns the
  function call \<open>schedule_appointment\<close> with arguments that decode, the decoded fields are
  merged into the collected fields of the conversation. If the call row still exists and
  the store accepts the commit, the row holds the collected fields, the action
  \<open>appointment_scheduled\<close> and the decoded fields as action details in the state returned
  with the response, and the response says the reply and hangs up. If the call row no
  longer exists, the same response is returned and the store is unchanged. If the store
  rejects the commit, the webhook raises and the store is unchanged.
\<close>

theorem schedule_appointment_turn:
  assumes live: "active_conversations w CallSid = Some conv"
    and speech: "speech \<noteq> []"
    and configured: "client (ai_handler conv)"
    and prompt: "build_system_prompt (business_context (ai_handler conv)) = Inr sp"
    and model: "chat_completion e
             (build_messages e (with_user_message (ai_handler conv) speech) sp (collected_info conv)) =
           Message mc (Some (''schedule_appointment'', arguments))"
    and decoded: "json_loads_args e arguments = Inr args"
  shows "map_option collected_info
           (active_conversations (snd (handle_speech_input e w CallSid (Some speech))) CallSid) =
         Some (dict_update (collected_info conv) args)
    \<and> (case find (\<lambda>c. call_pk c = call_id conv) (calls (db w)) of
         None \<Rightarrow>
           fst (handle_speech_input e w CallSid (Some speech)) =
             Inr (Xml [Say (if mc \<noteq> None \<and> mc \<noteq> Some [] then mc
                            else Some (get_action_response ''schedule_appointment'' args))
                         ''Polly.Joanna'', Hangup])
           \<and> db (snd (handle_speech_input e w CallSid (Some speech))) = db w
       | Some c \<Rightarrow>
           if commit_ok e then
             fst (handle_speech_input e w CallSid (Some speech)) =
               Inr (Xml [Say (if mc \<noteq> None \<and> mc \<noteq> Some [] then mc
                              else Some (get_action_response ''schedule_appointment'' args))
                           ''Polly.Joanna'', Hangup])
             \<and> find (\<lambda>c. call_pk c = call_id conv)
                 (calls (db (snd (handle_speech_input e w CallSid (Some speech))))) =
                Some (c\<lparr>call_collected_info := dict_update (collected_info conv) args,
                        action_taken := Some ''appointment_scheduled'',
                        action_details := Some args\<rparr>)
           else
             fst (handle_speech_input e w CallSid (Some speech)) = Inl DbError
             \<and> db (snd (handle_speech_input e w CallSid (Some speech))) = db w)"
proof -
  note run = process_input_function_call [OF configured prompt model decoded]
  have merged: "(if args = [] then collected_info conv else dict_update (collected_info conv) args) =
      dict_update (collected_info conv) args"
    by simp
  show ?thesis
  proof (cases "find (\<lambda>c. call_pk c = call_id conv) (calls (db w))")
    case None
    then show ?thesis
      using live speech run
      by (cases "args = []")
         (simp_all add: handle_speech_input_def Let_def store_def create_response_def)
  next
    case (Some c)
    let ?c' = "c\<lparr>call_collected_info := dict_update (collected_info conv) args,
                  action_taken := Some ''appointment_scheduled'',
                  action_details := Some args\<rparr>"
    have pk: "call_pk ?c' = call_id conv"
      using find_pk [OF Some] by simp
    have "find (\<lambda>c. call_pk c = call_id conv)
            (calls (update_call ((db w)\<lparr>calls := calls (db w)\<rparr>) ?c')) = Some ?c'"
      using Some pk by (rule find_update_call)
    then have found:
      "find (\<lambda>c. call_pk c = call_id conv) (calls (update_call (db w) ?c')) = Some ?c'"
      by simp
    show ?thesis
      using live speech run Some found
      by (cases "args = []")
         (simp_all add: handle_speech_input_def Let_def store_def create_response_def)
  qed
qed

theorem schedule_appointment_turn_witness:
  "commit_ok env_ok
   \<and> active_conversations world1 ''CA1'' = Some conv1
   \<and> find (\<lambda>c. call_pk c = call_id conv1) (calls (db world1)) = Some call1
   \<and> map_option collected_info
        (active_conversations (snd (handle_speech_input env_ok world1 ''CA1'' (Some ''book me in''))) ''CA1'') =
       Some jane
   \<and> fst (handle_speech_input env_ok world1 ''CA1'' (Some ''book me in'')) =
       Inr (Xml [Say (Some ''I've scheduled your appointment for 2024-06-01 at 10:00. We'll see you then, Jane!'')
                   ''Polly.Joanna'', Hangup])
   \<and> find (\<lambda>c. call_pk c = 1)
        (calls (db (snd (handle_speech_input env_ok world1 ''CA1'' (Some ''book me in''))))) =
       Some (call1\<lparr>call_collected_info := jane, action_taken := Some ''appointment_scheduled'',
                   action_details := Some jane\<rparr>)"
proof -
  obtain sp where prompt: "build_system_prompt (business_context (ai_handler conv1)) = Inr sp"
    using handler1_prompt by (auto simp add: conv1_def)
  have live: "active_conversations world1 ''CA1'' = Some conv1"
    by (simp add: world1_def)
  have speech: "''book me in'' \<noteq> []" by simp
  have configured: "client (ai_handler conv1)"
    by (simp add: conv1_def handler1_def)
  have model: "chat_completion env_ok
      (build_messages env_ok (with_user_message (ai_handler conv1) ''book me in'') sp (collected_info conv1)) =
      Message None (Some (''schedule_appointment'', ''jane''))"
    by (simp add: env_ok_def)
  have decoded: "json_loads_args env_ok ''jane'' = Inr jane"
    by (simp add: env_ok_def)
  have row: "find (\<lambda>c. call_pk c = call_id conv1) (calls (db world1)) = Some call1"
    by (simp add: world1_def conv1_def call1_def)
  have commit: "commit_ok env_ok" by (simp add: env_ok_def)
  have merged: "dict_update (collected_info conv1) jane = jane"
    by (simp add: conv1_def jane_def)
  have cid: "call_id conv1 = 1" by (simp add: conv1_def)
  show ?thesis
    using schedule_appointment_turn [OF live speech configured prompt model decoded]
      live commit row
    by (simp add: jane_scheduled merged cid)
qed

text \<open>On the call whose row has been deleted, the model schedules the appointment, the
  hang-up response is returned, and no call row holds the appointment.\<close>

theorem schedule_without_call_row_counterexample:
  "active_conversations world2 ''CA1'' = Some conv1
   \<and> chat_completion env_ok [] = Message None (Some (''schedule_appointment'', ''jane''))
   \<and> fst (handle_speech_input env_ok world2 ''CA1'' (Some ''book me in'')) =
       Inr (Xml [Say (Some ''I've scheduled your appointment for 2024-06-01 at 10:00. We'll see you then, Jane!'')
                   ''Polly.Joanna'', Hangup])
   \<and> calls (db (snd (handle_speech_input env_ok world2 ''CA1'' (Some ''book me in'')))) = []"
proof -
  obtain sp where prompt: "build_system_prompt (business_context (ai_handler conv1)) = Inr sp"
    using handler1_prompt by (auto simp add: conv1_def)
  have configured: "client (ai_handler conv1)"
    by (simp add: conv1_def handler1_def)
  have model: "chat_completion env_ok ms = Message None (Some (''schedule_appointment'', ''jane''))"
    for ms
    by (simp add: env_ok_def)
  have decoded: "json_loads_args env_ok ''jane'' = Inr jane"
    by (simp add: env_ok_def)
  note run = process_input_function_call [OF configured prompt model decoded, of "''book me in''"]
  have no_row: "calls (db world2) = []"
    by (simp add: world2_def)
  have nonempty: "jane \<noteq> []" by (simp add: jane_def)
  show ?thesis
    using world2_live run no_row nonempty model [of "[]"]
    by (simp add: handle_speech_input_def Let_def store_def create_response_def jane_scheduled)
qed

text \<open>
  C10. On a speech turn of a live call with a configured client, when the model call
  fails after the caller's message has been appended to the history, the webhook still
  answers (with the fallback reply inside a gather), the history of the handler is the
  old history followed by the caller's message alone, and the transcript of the
  conversation is the old transcript followed by the caller's line and the line of the
  fallback reply.
\<close>

theorem failed_model_call_history:
  assumes live: "active_conversations w CallSid = Some conv"
    and speech: "speech \<noteq> []"
    and configured: "client (ai_handler conv)"
    and prompt: "build_system_prompt (business_context (ai_handler conv)) = Inr sp"
    and fails: "model_call_fails e
             (build_messages e (with_user_message (ai_handler conv) speech) sp (collected_info conv))"
  shows "fst (handle_speech_input e w CallSid (Some speech)) =
           Inr (Xml (create_response
             (Some ''I apologize, but I'm experiencing some issues. Let me transfer you to our staff.'')
             ''Polly.Joanna'' True False))
    \<and> map_option (\<lambda>c. conversation_history (ai_handler c))
           (active_conversations (snd (handle_speech_input e w CallSid (Some speech))) CallSid) =
         Some (conversation_history (ai_handler conv) @ [\<lparr>role = ''user'', content = Some speech\<rparr>])
    \<and> map_option transcript
           (active_conversations (snd (handle_speech_input e w CallSid (Some speech))) CallSid) =
         Some (transcript conv @
            [''Caller: '' @ speech,
             ''AI: I apologize, but I'm experiencing some issues. Let me transfer you to our staff.''])"
proof -
  obtain err where run: "process_input e (ai_handler conv) speech (collected_info conv) =
     (Inr (Fallback
        ''I apologize, but I'm experiencing some issues. Let me transfer you to our staff.''
        ''transfer'' err), with_user_message (ai_handler conv) speech)"
    using process_input_fails [OF configured prompt fails] by blast
  show ?thesis
    using live speech run
    by (simp add: handle_speech_input_def Let_def store_def with_user_message_def py_str_def)
qed

theorem failed_model_call_history_witness:
  "model_call_fails env_down []
   \<and> active_conversations world1 ''CA1'' = Some conv1
   \<and> map_option (\<lambda>c. conversation_history (ai_handler c))
        (active_conversations (snd (handle_speech_input env_down world1 ''CA1'' (Some ''hello''))) ''CA1'') =
      Some [\<lparr>role = ''user'', content = Some ''hi''\<rparr>, \<lparr>role = ''assistant'', content = Some ''hello''\<rparr>,
            \<lparr>role = ''user'', content = Some ''hello''\<rparr>]
   \<and> map_option transcript
        (active_conversations (snd (handle_speech_input env_down world1 ''CA1'' (Some ''hello''))) ''CA1'') =
      Some [''Caller: hi'', ''AI: hello'', ''Caller: hello'',
            ''AI: I apologize, but I'm experiencing some issues. Let me transfer you to our staff.'']"
proof -
  obtain sp where prompt: "build_system_prompt (business_context (ai_handler conv1)) = Inr sp"
    using handler1_prompt by (auto simp add: conv1_def)
  have live: "active_conversations world1 ''CA1'' = Some conv1"
    by (simp add: world1_def)
  have speech: "''hello'' \<noteq> []" by simp
  have configured: "client (ai_handler conv1)"
    by (simp add: conv1_def handler1_def)
  have fails: "model_call_fails env_down ms" for ms
    by (simp add: model_call_fails_def env_down_def env_ok_def)
  show ?thesis
    using failed_model_call_history [OF live speech configured prompt fails] fails [of "[]"] live
    by (simp add: conv1_def handler1_def)
qed

section \<open>The status webhook\<close>

text \<open>
  C2, as the code has it. For a call identifier with a live conversation: when the call
  row is missing or the store accepts the commit, the status webhook returns its
  acknowledgement and the registry no longer holds a conversation for the identifier;
  when the call row exists and the store rejects the commit, the webhook raises and
  leaves the state as it was, the conversation still registered.
\<close>

theorem status_eviction:
  assumes "active_conversations w CallSid = Some conv"
  shows "(commit_ok e \<or> find (\<lambda>c. call_pk c = call_id conv) (calls (db w)) = None \<longrightarrow>
            fst (handle_call_status e w CallSid TwilioCallStatus CallDuration) =
              Inr (Json [(''status'', ''ok'')])
          \<and> active_conversations
              (snd (handle_call_status e w CallSid TwilioCallStatus CallDuration)) CallSid = None)
    \<and> (\<not> commit_ok e \<and> find (\<lambda>c. call_pk c = call_id conv) (calls (db w)) \<noteq> None \<longrightarrow>
            handle_call_status e w CallSid TwilioCallStatus CallDuration = (Inl DbError, w))"
  using assms by (auto simp add: handle_call_status_def split: option.splits)

theorem status_eviction_witness:
  "commit_ok env_ok \<and> \<not> commit_ok env_commit_fails
   \<and> active_conversations world1 ''CA1'' = Some conv1
   \<and> find (\<lambda>c. call_pk c = call_id conv1) (calls (db world1)) = Some call1
   \<and> fst (handle_call_status env_ok world1 ''CA1'' ''completed'' (Some 42)) = Inr (Json [(''status'', ''ok'')])
   \<and> active_conversations (snd (handle_call_status env_ok world1 ''CA1'' ''completed'' (Some 42))) ''CA1'' = None
   \<and> handle_call_status env_commit_fails world1 ''CA1'' ''completed'' (Some 42) = (Inl DbError, world1)"
proof -
  have live: "active_conversations world1 ''CA1'' = Some conv1" by (simp add: world1_def)
  have row: "find (\<lambda>c. call_pk c = call_id conv1) (calls (db world1)) = Some call1"
    by (simp add: world1_def conv1_def call1_def)
  have ok: "commit_ok env_ok" by (simp add: env_ok_def)
  have bad: "\<not> commit_ok env_commit_fails" by (simp add: env_commit_fails_def env_ok_def)
  show ?thesis
    using status_eviction [OF live, of env_ok "''completed''" "Some 42"]
      status_eviction [OF live, of env_commit_fails "''completed''" "Some 42"]
      live row ok bad
    by simp
qed

text \<open>With a store that rejects the commit, the conversation of the call is still
  registered after the status webhook.\<close>

theorem failed_write_keeps_state_counterexample:
  "\<not> commit_ok env_commit_fails
   \<and> active_conversations world1 ''CA1'' = Some conv1
   \<and> active_conversations
        (snd (handle_call_status env_commit_fails world1 ''CA1'' ''completed'' (Some 42))) ''CA1'' =
       Some conv1"
  by (simp add: handle_call_status_def world1_def conv1_def call1_def env_commit_fails_def env_ok_def)

text \<open>
  C4, as the code has it. For a terminal status event on a call with a live
  conversation whose call row exists, when the store accepts the commit, the webhook
  acknowledges and the row holds the status that the lower-cased provider status maps to:
  \<open>completed\<close> to COMPLETED, each of \<open>busy\<close>, \<open>no-answer\<close> and \<open>canceled\<close> to MISSED,
  \<open>failed\<close> to FAILED, and anything else to COMPLETED; its duration is the reported
  number of seconds, and 0 when none is reported.
\<close>

theorem status_event_mapping:
  assumes "active_conversations w CallSid = Some conv"
    and "find (\<lambda>c. call_pk c = call_id conv) (calls (db w)) = Some c"
    and "commit_ok e"
  shows "fst (handle_call_status e w CallSid TwilioCallStatus CallDuration) =
           Inr (Json [(''status'', ''ok'')])
    \<and> (\<exists>c'. find (\<lambda>c. call_pk c = call_id conv)
               (calls (db (snd (handle_call_status e w CallSid TwilioCallStatus CallDuration)))) = Some c'
          \<and> status c' =
              (if lower TwilioCallStatus = ''completed'' then COMPLETED
               else if lower TwilioCallStatus = ''busy'' \<or> lower TwilioCallStatus = ''no-answer''
                       \<or> lower TwilioCallStatus = ''canceled'' then MISSED
               else if lower TwilioCallStatus = ''failed'' then FAILED
               else COMPLETED)
          \<and> duration_seconds c' = (case CallDuration of None \<Rightarrow> 0 | Some n \<Rightarrow> n))"
proof -
  let ?c' = "finalize_call e conv c TwilioCallStatus CallDuration"
  have pk: "call_pk ?c' = call_id conv"
    using find_pk [OF assms(2)] by simp
  have run: "handle_call_status e w CallSid TwilioCallStatus CallDuration =
      (Inr (Json [(''status'', ''ok'')]),
       w\<lparr>db := update_call (db w) ?c',
         active_conversations := (active_conversations w)(CallSid := None)\<rparr>)"
    using assms by (simp add: handle_call_status_def)
  have "find (\<lambda>c. call_pk c = call_id conv)
          (calls (update_call ((db w)\<lparr>calls := calls (db w)\<rparr>) ?c')) = Some ?c'"
    using assms(2) pk by (rule find_update_call)
  then have found: "find (\<lambda>c. call_pk c = call_id conv) (calls (update_call (db w) ?c')) = Some ?c'"
    by simp
  show ?thesis
    unfolding run using found
    by (simp add: finalize_call_status finalize_call_duration map_status_cases)
qed

theorem status_event_mapping_witness:
  "commit_ok env_ok
   \<and> active_conversations world1 ''CA1'' = Some conv1
   \<and> (\<exists>c'. find (\<lambda>c. call_pk c = 1)
              (calls (db (snd (handle_call_status env_ok world1 ''CA1'' ''completed'' (Some 42))))) = Some c'
         \<and> status c' = COMPLETED \<and> duration_seconds c' = 42)
   \<and> (\<exists>c'. find (\<lambda>c. call_pk c = 1)
              (calls (db (snd (handle_call_status env_ok world1 ''CA1'' ''no-answer'' None)))) = Some c'
         \<and> status c' = MISSED \<and> duration_seconds c' = 0)"
proof -
  have live: "active_conversations world1 ''CA1'' = Some conv1" by (simp add: world1_def)
  have row: "find (\<lambda>c. call_pk c = call_id conv1) (calls (db world1)) = Some call1"
    by (simp add: world1_def conv1_def call1_def)
  have ok: "commit_ok env_ok" by (simp add: env_ok_def)
  have cid: "call_id conv1 = 1" by (simp add: conv1_def)
  have l1: "lower ''completed'' = ''completed''" by (simp add: lower_def lower_char_def)
  have l2: "lower ''no-answer'' = ''no-answer''" by (simp add: lower_def lower_char_def)
  show ?thesis
    using status_event_mapping [OF live row ok, of "''completed''" "Some 42"]
      status_event_mapping [OF live row ok, of "''no-answer''" None] live ok
    by (simp add: cid l1 l2)
qed

text \<open>The provider status \<open>BUSY\<close> is none of the five listed values, and the call row
  ends with the status MISSED, not COMPLETED.\<close>

theorem status_case_counterexample:
  "''BUSY'' \<notin> set [''completed'', ''busy'', ''no-answer'', ''canceled'', ''failed'']
   \<and> map status (calls (db (snd (handle_call_status env_ok world1 ''CA1'' ''BUSY'' (Some 42))))) = [MISSED]"
  by (simp add: handle_call_status_def world1_def conv1_def call1_def env_ok_def update_call_def
         finalize_call_status map_status_def status_map_def lower_def lower_char_def)

text \<open>
  C8. Once the status webhook has returned for a call identifier, a second delivery for
  the same identifier, whatever status and duration it reports and whether or not the
  store would accept a commit, returns the acknowledgement and the state it was given:
  nothing in the store or the registry changes.
\<close>

theorem repeated_status_event_noop:
  assumes "handle_call_status e1 w CallSid s1 d1 = (Inr r, w')"
  shows "handle_call_status e2 w' CallSid s2 d2 = (Inr (Json [(''status'', ''ok'')]), w')"
proof -
  have "active_conversations w' CallSid = None"
    using assms by (auto simp add: handle_call_status_def split: option.splits if_splits)
  then show ?thesis by (simp add: handle_call_status_def)
qed

theorem repeated_status_event_noop_witness:
  "fst (handle_call_status env_ok world1 ''CA1'' ''completed'' (Some 42)) = Inr (Json [(''status'', ''ok'')])
   \<and> handle_call_status env_commit_fails
        (snd (handle_call_status env_ok world1 ''CA1'' ''completed'' (Some 42)))
        ''CA1'' ''completed'' (Some 42) =
       (Inr (Json [(''status'', ''ok'')]),
        snd (handle_call_status env_ok world1 ''CA1'' ''completed'' (Some 42)))"
proof -
  have first: "fst (handle_call_status env_ok world1 ''CA1'' ''completed'' (Some 42)) =
      Inr (Json [(''status'', ''ok'')])"
    by (simp add: handle_call_status_def world1_def conv1_def call1_def env_ok_def)
  then have run: "handle_call_status env_ok world1 ''CA1'' ''completed'' (Some 42) =
      (Inr (Json [(''status'', ''ok'')]),
       snd (handle_call_status env_ok world1 ''CA1'' ''completed'' (Some 42)))"
    by (metis prod.collapse)
  show ?thesis
    using first repeated_status_event_noop [OF run, of env_commit_fails "''completed''" "Some 42"]
    by simp
qed

end
